theory Spec2Isabelle
  imports Complex_Main
begin

section \<open>JavaScript strings\<close>

text \<open>
  A JavaScript string is a sequence of UTF-16 code units. A code unit is modelled by its
  number, so that the bullet glyph U+2022 of the layout engine is a string like any other.
  \<open>js\<close> turns an Isabelle literal (ASCII) into such a string.
\<close>

type_synonym jschar = nat
type_synonym jstring = "jschar list"

abbreviation js :: "string \<Rightarrow> jstring" where
  "js s \<equiv> map of_char s"

text \<open>
  \<open>String.prototype.trim\<close> removes, at both ends, the code units of the ECMAScript
  classes WhiteSpace and LineTerminator.
\<close>

definition isWhiteSpace :: "jschar \<Rightarrow> bool" where
  "isWhiteSpace c \<longleftrightarrow>
     c = 0x9 \<or> c = 0xA \<or> c = 0xB \<or> c = 0xC \<or> c = 0xD \<or> c = 0x20 \<or> c = 0xA0 \<or>
     c = 0x1680 \<or> (0x2000 \<le> c \<and> c \<le> 0x200A) \<or> c = 0x2028 \<or> c = 0x2029 \<or>
     c = 0x202F \<or> c = 0x205F \<or> c = 0x3000 \<or> c = 0xFEFF"

definition trim :: "jstring \<Rightarrow> jstring" where
  "trim s = rev (dropWhile isWhiteSpace (rev (dropWhile isWhiteSpace s)))"

text \<open>
  \<open>String.prototype.toLowerCase\<close>, exact on Basic Latin and the Latin-1 Supplement
  (\<open>A\<close>..\<open>Z\<close> and U+00C0..U+00DE without the multiplication sign U+00D7). Code units
  above U+00FF are left as they are; nothing proved below depends on them.
\<close>

definition toLowerCaseUnit :: "jschar \<Rightarrow> jschar" where
  "toLowerCaseUnit c =
     (if 0x41 \<le> c \<and> c \<le> 0x5A then c + 0x20
      else if 0xC0 \<le> c \<and> c \<le> 0xDE \<and> c \<noteq> 0xD7 then c + 0x20
      else c)"

definition toLowerCase :: "jstring \<Rightarrow> jstring" where
  "toLowerCase s = map toLowerCaseUnit s"

section \<open>The DOM of the parsed notes\<close>

text \<open>
  The tree that \<open>DOMParser.parseFromString\<close> builds. Only what \<open>parseNotesContent\<close>
  reads is kept: an element's \<open>tagName\<close> and child nodes, and the data of text nodes.
  Comments carry no text content.
\<close>

datatype node =
    Element jstring "node list"
  | Text jstring
  | Comment jstring

fun isElement :: "node \<Rightarrow> bool" where
  "isElement (Element t cs) = True"
| "isElement (Text d) = False"
| "isElement (Comment d) = False"

fun tagName :: "node \<Rightarrow> jstring" where
  "tagName (Element t cs) = t"
| "tagName (Text d) = []"
| "tagName (Comment d) = []"

fun childNodes :: "node \<Rightarrow> node list" where
  "childNodes (Element t cs) = cs"
| "childNodes (Text d) = []"
| "childNodes (Comment d) = []"

text \<open>\<open>element.children\<close>: the child nodes that are elements, in document order.\<close>

definition children :: "node \<Rightarrow> node list" where
  "children n = filter isElement (childNodes n)"

text \<open>
  \<open>element.textContent\<close>: the data of every text node below the element, concatenated
  in document order.
\<close>

fun textContent :: "node \<Rightarrow> jstring" where
  "textContent (Element t cs) = concat (map textContent cs)"
| "textContent (Text d) = d"
| "textContent (Comment d) = []"

section \<open>Content blocks and the notes parser\<close>

text \<open>
  The objects \<open>{ type, text }\<close> and \<open>{ type, items }\<close> that \<open>parseElement\<close> returns,
  one constructor for each value of \<open>type\<close>.
\<close>

datatype ContentBlock =
    Heading1 jstring
  | Heading2 jstring
  | Heading3 jstring
  | Paragraph jstring
  | BulletList "jstring list"
  | NumberList "jstring list"

definition parseElement :: "node \<Rightarrow> ContentBlock" where
  "parseElement element =
     (let type = toLowerCase (tagName element);
          text = trim (textContent element)
      in if type = js ''h1'' then Heading1 text
         else if type = js ''h2'' then Heading2 text
         else if type = js ''h3'' then Heading3 text
         else if type = js ''p'' then Paragraph text
         else if type = js ''ul'' then
           BulletList (map (\<lambda>li. trim (textContent li)) (children element))
         else if type = js ''ol'' then
           NumberList (map (\<lambda>li. trim (textContent li)) (children element))
         else Paragraph text)"

text \<open>
  \<open>parseNotesContent\<close>. The platform's HTML parser is the parameter \<open>parseFromString\<close>:
  it gives the \<open>body\<close> element of the document built from the markup.
\<close>

definition parseNotesContent :: "(jstring \<Rightarrow> node) \<Rightarrow> jstring \<Rightarrow> ContentBlock list" where
  "parseNotesContent parseFromString htmlContent =
     (let elements = children (parseFromString htmlContent)
      in foldl (\<lambda>parsedContent element. parsedContent @ [parseElement element]) [] elements)"

section \<open>Regular-expression replacement\<close>

text \<open>
  \<open>s.replace(/re/g, r)\<close> for a regular expression without empty matches. A matcher gives
  the length of the match that starts at the head of its argument, if there is one; the
  scan goes from left to right, replaces a match and goes on behind it, and otherwise
  keeps one code unit and tries again at the next.
\<close>

fun replaceRegex :: "(jstring \<Rightarrow> nat option) \<Rightarrow> jstring \<Rightarrow> jstring \<Rightarrow> jstring" where
  "replaceRegex re r [] = []"
| "replaceRegex re r (c # cs) =
     (case re (c # cs) of
        Some n \<Rightarrow> r @ replaceRegex re r (drop (n - 1) cs)
      | None \<Rightarrow> c # replaceRegex re r cs)"

text \<open>
  The literal \<open>/\\s+/\<close> of \<open>handleDownload\<close>: inside a regular-expression literal
  \<open>\\\<close> is an escaped backslash, so the pattern is one backslash (U+005C) followed by
  one or more letters \<open>s\<close> (U+0073).
\<close>

definition reBackslashS :: "jstring \<Rightarrow> nat option" where
  "reBackslashS s =
     (case s of
        [] \<Rightarrow> None
      | c # cs \<Rightarrow>
          (let n = length (takeWhile (\<lambda>d. d = 0x73) cs)
           in if c = 0x5C \<and> 0 < n then Some (1 + n) else None))"

text \<open>
  The three patterns of \<open>handleSubmit\<close>: three backticks (U+0060), lower-case letters
  and a line feed; three backticks and a line feed; three backticks.
\<close>

definition backticks :: jstring where
  "backticks = [0x60, 0x60, 0x60]"

definition reFenceLang :: "jstring \<Rightarrow> nat option" where
  "reFenceLang s =
     (if take 3 s = backticks then
        (let n = length (takeWhile (\<lambda>d. 0x61 \<le> d \<and> d \<le> 0x7A) (drop 3 s))
         in case drop (3 + n) s of
              [] \<Rightarrow> None
            | d # ds \<Rightarrow> if d = 0xA then Some (3 + n + 1) else None)
      else None)"

definition reFenceNewline :: "jstring \<Rightarrow> nat option" where
  "reFenceNewline s = (if take 4 s = backticks @ [0xA] then Some 4 else None)"

definition reFence :: "jstring \<Rightarrow> nat option" where
  "reFence s = (if take 3 s = backticks then Some 3 else None)"

text \<open>\<open>String(n)\<close> for a natural number: its decimal digits.\<close>

fun toString :: "nat \<Rightarrow> jstring" where
  "toString n = (if n < 10 then [0x30 + n] else toString (n div 10) @ [0x30 + n mod 10])"

declare toString.simps [simp del]

section \<open>The application state\<close>

record File =
  fileName :: jstring
  fileType :: jstring
  fileSize :: nat

record request =
  url :: jstring
  formFile :: File
  formTopic :: jstring

text \<open>
  The state variables of the component (\<open>files\<close> to \<open>previewUrls\<close>), and what the
  handlers do to the browser: the object URLs that are created and not yet revoked (an
  object URL is a number, \<open>urlCounter\<close> the next fresh one), the requests that were
  posted, the URLs opened in a new window, and the links that were clicked (file name and
  URL).
\<close>

record app =
  files :: "File list"
  topic :: jstring
  notesState :: jstring
  loading :: bool
  error :: jstring
  fileError :: jstring
  previewUrls :: "nat list"
  objectUrls :: "nat list"
  urlCounter :: nat
  posts :: "request list"
  windows :: "nat list"
  downloads :: "(jstring \<times> nat) list"

definition createObjectURL :: "app \<Rightarrow> nat \<times> app" where
  "createObjectURL st =
     (urlCounter st,
      st\<lparr>objectUrls := objectUrls st @ [urlCounter st], urlCounter := urlCounter st + 1\<rparr>)"

definition revokeObjectURL :: "nat \<Rightarrow> app \<Rightarrow> app" where
  "revokeObjectURL u st = st\<lparr>objectUrls := removeAll u (objectUrls st)\<rparr>"

fun createPreviewUrls_loop :: "File list \<Rightarrow> nat list \<Rightarrow> app \<Rightarrow> nat list \<times> app" where
  "createPreviewUrls_loop [] newPreviewUrls st = (newPreviewUrls, st)"
| "createPreviewUrls_loop (f # fileList) newPreviewUrls st =
     (case createObjectURL st of
        (u, st') \<Rightarrow> createPreviewUrls_loop fileList (newPreviewUrls @ [u]) st')"

definition createPreviewUrls :: "File list \<Rightarrow> app \<Rightarrow> nat list \<times> app" where
  "createPreviewUrls fileList st = createPreviewUrls_loop fileList [] st"

text \<open>
  The effect of lines 28 to 32 depends on \<open>previewUrls\<close>: its clean-up revokes the
  preview URLs of the render it belongs to, and React runs it when \<open>previewUrls\<close> is
  replaced and when the component is unmounted.
\<close>

definition cleanupPreviewUrls :: "app \<Rightarrow> app" where
  "cleanupPreviewUrls st = fold revokeObjectURL (previewUrls st) st"

definition setPreviewUrls :: "nat list \<Rightarrow> app \<Rightarrow> app" where
  "setPreviewUrls newPreviewUrls st = (cleanupPreviewUrls st)\<lparr>previewUrls := newPreviewUrls\<rparr>"

definition unmount :: "app \<Rightarrow> app" where
  "unmount st = cleanupPreviewUrls st"

section \<open>Selecting and removing files\<close>

definition validTypes :: "jstring list" where
  "validTypes = [js ''image/jpeg'', js ''image/jpg'', js ''image/png'']"

definition typeError :: jstring where
  "typeError = js ''Please upload valid image files (JPG, JPEG, PNG)''"

definition sizeError :: jstring where
  "sizeError = js ''One or more files exceed 5MB limit''"

text \<open>The loop of \<open>handleFileChange\<close> over the selected files, \<open>continue\<close> included.\<close>

fun validateFiles :: "File list \<Rightarrow> File list \<Rightarrow> app \<Rightarrow> File list \<times> app" where
  "validateFiles [] validFiles st = (validFiles, st)"
| "validateFiles (f # selectedFiles) validFiles st =
     (if fileType f \<notin> set validTypes then
        validateFiles selectedFiles validFiles (st\<lparr>fileError := typeError\<rparr>)
      else if fileSize f > 5 * 1024 * 1024 then
        validateFiles selectedFiles validFiles (st\<lparr>fileError := sizeError\<rparr>)
      else validateFiles selectedFiles (validFiles @ [f]) st)"

definition handleFileChange :: "File list \<Rightarrow> app \<Rightarrow> app" where
  "handleFileChange selectedFiles st =
     (let st1 = st\<lparr>fileError := []\<rparr>
      in if length selectedFiles = 0 then st1
         else case validateFiles selectedFiles [] st1 of
           (validFiles, st2) \<Rightarrow>
             if length validFiles > 0 then
               (let newFiles = files st @ validFiles;
                    st3 = st2\<lparr>files := newFiles\<rparr>
                in case createPreviewUrls newFiles st3 of
                     (urls, st4) \<Rightarrow> setPreviewUrls urls st4)
             else st2)"

text \<open>
  \<open>removeFile\<close>. \<open>splice(index, 1)\<close> beyond the end removes nothing, and there
  \<open>newPreviewUrls[index]\<close> is \<open>undefined\<close>, which \<open>revokeObjectURL\<close> ignores.
\<close>

definition removeFile :: "nat \<Rightarrow> app \<Rightarrow> app" where
  "removeFile index st =
     (let st1 = st\<lparr>files := take index (files st) @ drop (Suc index) (files st)\<rparr>;
          newPreviewUrls = previewUrls st;
          st2 = (if index < length newPreviewUrls
                 then revokeObjectURL (newPreviewUrls ! index) st1 else st1)
      in setPreviewUrls (take index newPreviewUrls @ drop (Suc index) newPreviewUrls) st2)"

section \<open>The collaborators\<close>

text \<open>
  An \<open>axios.post\<close> either resolves with the response's data or rejects; a rejection
  carries \<open>err.response?.data?.error\<close> when the server sent one. A response of
  \<open>generate-notes\<close> without a string \<open>notes\<close> makes \<open>.replace\<close> throw inside the
  \<open>try\<close>, which is a rejection without a message.
\<close>

datatype 'a response = Resolved 'a | Rejected "jstring option"

type_synonym blob = "nat list"

text \<open>
  The document that jsPDF builds, as far as \<open>generatePDF\<close> drives it: the number of pages
  (text goes to the last one), the current font weight and size, the title property, and
  the text runs placed so far. The text colour is black throughout and is left out.
\<close>

record textRun =
  runPage :: nat
  runText :: "jstring list"
  runX :: real
  runY :: real
  runBold :: bool
  runSize :: nat

record jsPDF =
  pageCount :: nat
  fontBold :: bool
  fontSize :: nat
  title :: jstring
  runs :: "textRun list"

text \<open>
  What the code takes from outside: the HTML parser, jsPDF's text measurement
  \<open>splitTextToSize\<close> (it reads the document's current font; \<open>None\<close> when it throws),
  jsPDF's page size, its serialisation \<open>output\<close> (\<open>None\<close> when it throws), the date
  string, and the two endpoints of the server.
\<close>

record env =
  parseFromString :: "jstring \<Rightarrow> node"
  splitTextToSize :: "jsPDF \<Rightarrow> jstring \<Rightarrow> real \<Rightarrow> jstring list option"
  pageHeight :: real
  pageWidth :: real
  pdfOutput :: "jsPDF \<Rightarrow> blob option"
  toLocaleDateString :: jstring
  postGenerateNotes :: "File \<Rightarrow> jstring \<Rightarrow> jstring response"
  postGenerateNotesPdf :: "File \<Rightarrow> jstring \<Rightarrow> blob response"

section \<open>Generating the notes\<close>

definition generateNotesUrl :: jstring where
  "generateNotesUrl = js ''http://localhost:8000/generate-notes''"

definition generateNotesPdfUrl :: jstring where
  "generateNotesPdfUrl = js ''http://localhost:8000/generate-notes-pdf''"

definition cleanNotes :: "jstring \<Rightarrow> jstring" where
  "cleanNotes responseNotes =
     trim (replaceRegex reFence []
       (replaceRegex reFenceNewline []
         (replaceRegex reFenceLang [] responseNotes)))"

text \<open>
  The loop of \<open>handleSubmit\<close> over \<open>files\<close>: one request for each file, the cleaned
  answer and a line feed appended to \<open>combinedNotes\<close>; a rejected request leaves the loop.
\<close>

fun submitFiles :: "env \<Rightarrow> File list \<Rightarrow> jstring \<Rightarrow> app \<Rightarrow> (jstring option + jstring) \<times> app" where
  "submitFiles e [] combinedNotes st = (Inr combinedNotes, st)"
| "submitFiles e (f # fs) combinedNotes st =
     (let st1 = st\<lparr>posts := posts st @
                   [\<lparr>url = generateNotesUrl, formFile = f, formTopic = topic st\<rparr>]\<rparr>
      in case postGenerateNotes e f (topic st) of
           Rejected m \<Rightarrow> (Inl m, st1)
         | Resolved responseNotes \<Rightarrow>
             submitFiles e fs (combinedNotes @ cleanNotes responseNotes @ [0xA]) st1)"

definition handleSubmit :: "env \<Rightarrow> app \<Rightarrow> app" where
  "handleSubmit e st =
     (if length (files st) = 0 then
        st\<lparr>fileError := js ''Please upload at least one image file''\<rparr>
      else if trim (topic st) = [] then
        st\<lparr>error := js ''Please enter a subject/topic''\<rparr>
      else
        (let st1 = st\<lparr>loading := True, error := [], notesState := []\<rparr>
         in case submitFiles e (files st1) [] st1 of
              (Inr combinedNotes, st2) \<Rightarrow>
                st2\<lparr>notesState := combinedNotes, loading := False\<rparr>
            | (Inl m, st2) \<Rightarrow>
                st2\<lparr>error := (case m of
                                Some msg \<Rightarrow>
                                  if msg \<noteq> [] then msg
                                  else js ''Failed to generate notes. Please try again.''
                              | None \<Rightarrow> js ''Failed to generate notes. Please try again.''),
                     loading := False\<rparr>))"

section \<open>Downloading the PDF\<close>

definition downloadName :: "jstring \<Rightarrow> jstring" where
  "downloadName t = replaceRegex reBackslashS (js ''-'') (toLowerCase t) @ js ''-notes.pdf''"

definition handleDownload :: "env \<Rightarrow> app \<Rightarrow> app" where
  "handleDownload e st =
     (if length (files st) = 0 \<or> trim (topic st) = [] then
        st\<lparr>error := js ''Please upload an image and enter a topic first.''\<rparr>
      else
        (let st1 = st\<lparr>posts := posts st @
                      [\<lparr>url = generateNotesPdfUrl, formFile = files st ! 0,
                        formTopic = topic st\<rparr>]\<rparr>
         in case postGenerateNotesPdf e (files st ! 0) (topic st) of
              Rejected m \<Rightarrow> st1\<lparr>error := js ''Failed to download PDF. Please try again.''\<rparr>
            | Resolved responseData \<Rightarrow>
                (case createObjectURL st1 of
                   (blobUrl, st2) \<Rightarrow>
                     revokeObjectURL blobUrl
                       (st2\<lparr>downloads := downloads st2 @
                              [(downloadName (topic st), blobUrl)]\<rparr>))))"

section \<open>The layout engine\<close>

definition newPDF :: jsPDF where
  "newPDF = \<lparr>pageCount = 1, fontBold = False, fontSize = 16, title = [], runs = []\<rparr>"

definition setFont :: "bool \<Rightarrow> jsPDF \<Rightarrow> jsPDF" where
  "setFont bold pdf = pdf\<lparr>fontBold := bold\<rparr>"

definition setFontSize :: "nat \<Rightarrow> jsPDF \<Rightarrow> jsPDF" where
  "setFontSize n pdf = pdf\<lparr>fontSize := n\<rparr>"

definition addPage :: "jsPDF \<Rightarrow> jsPDF" where
  "addPage pdf = pdf\<lparr>pageCount := pageCount pdf + 1\<rparr>"

text \<open>
  \<open>pdf.text(lines, x, y)\<close> places the lines on the current page from \<open>(x, y)\<close> downwards
  in the current font; a single string is a run of one line.
\<close>

definition pdfText :: "jstring list \<Rightarrow> real \<Rightarrow> real \<Rightarrow> jsPDF \<Rightarrow> jsPDF" where
  "pdfText ls x y pdf =
     pdf\<lparr>runs := runs pdf @
           [\<lparr>runPage = pageCount pdf - 1, runText = ls, runX = x, runY = y,
             runBold = fontBold pdf, runSize = fontSize pdf\<rparr>]\<rparr>"

text \<open>
  The cursor of the layout: the document and \<open>yPos\<close>. Lengths are real numbers; the
  cursor starts at 40 and only whole numbers are added to it.
\<close>

record layout =
  doc :: jsPDF
  yPos :: real

definition margin :: real where
  "margin = 40"

definition contentWidth :: "real \<Rightarrow> real" where
  "contentWidth pageWidth' = pageWidth' - (margin * 2)"

text \<open>The check \<open>if (yPos > pageHeight - 60) { pdf.addPage(); yPos = 40; }\<close>.\<close>

definition newPageIfNeeded :: "env \<Rightarrow> layout \<Rightarrow> layout" where
  "newPageIfNeeded e l =
     (if yPos l > pageHeight e - 60 then \<lparr>doc = addPage (doc l), yPos = 40\<rparr> else l)"

text \<open>
  The four cases \<open>heading1\<close>, \<open>heading2\<close>, \<open>heading3\<close> and \<open>paragraph\<close> differ in the
  font weight, the font size, the line height and the spacing after the block only.
\<close>

definition renderText :: "env \<Rightarrow> bool \<Rightarrow> nat \<Rightarrow> real \<Rightarrow> real \<Rightarrow> jstring \<Rightarrow> layout \<Rightarrow> layout option" where
  "renderText e bold size' lineHeight spacing text l =
     (let pdf = setFontSize size' (setFont bold (doc l))
      in case splitTextToSize e pdf text (contentWidth (pageWidth e)) of
           None \<Rightarrow> None
         | Some textLines \<Rightarrow>
             Some \<lparr>doc = pdfText textLines margin (yPos l) pdf,
                   yPos = yPos l + (real (length textLines) * lineHeight) + spacing\<rparr>)"

definition bulletPoint :: jstring where
  "bulletPoint = [0x2022]"

definition renderBulletItem :: "env \<Rightarrow> jstring \<Rightarrow> layout \<Rightarrow> layout option" where
  "renderBulletItem e item l =
     (let l1 = newPageIfNeeded e l
      in case splitTextToSize e (doc l1) item (contentWidth (pageWidth e) - 15) of
           None \<Rightarrow> None
         | Some itemLines \<Rightarrow>
             Some \<lparr>doc = pdfText itemLines (margin + 15) (yPos l1)
                           (pdfText [bulletPoint] margin (yPos l1) (doc l1)),
                   yPos = yPos l1 + (real (length itemLines) * 14) + 5\<rparr>)"

definition renderNumberItem :: "env \<Rightarrow> nat \<Rightarrow> jstring \<Rightarrow> layout \<Rightarrow> layout option" where
  "renderNumberItem e index item l =
     (let l1 = newPageIfNeeded e l;
          number = toString (index + 1) @ js ''.''
      in case splitTextToSize e (doc l1) item (contentWidth (pageWidth e) - 20) of
           None \<Rightarrow> None
         | Some itemLines \<Rightarrow>
             Some \<lparr>doc = pdfText itemLines (margin + 20) (yPos l1)
                           (pdfText [number] margin (yPos l1) (doc l1)),
                   yPos = yPos l1 + (real (length itemLines) * 14) + 5\<rparr>)"

text \<open>\<open>content.items.forEach((item, index) => ...)\<close>, from the index given.\<close>

fun bulletItems :: "env \<Rightarrow> jstring list \<Rightarrow> layout \<Rightarrow> layout option" where
  "bulletItems e [] l = Some l"
| "bulletItems e (item # items) l =
     (case renderBulletItem e item l of
        None \<Rightarrow> None
      | Some l' \<Rightarrow> bulletItems e items l')"

fun numberItems :: "env \<Rightarrow> nat \<Rightarrow> jstring list \<Rightarrow> layout \<Rightarrow> layout option" where
  "numberItems e index [] l = Some l"
| "numberItems e index (item # items) l =
     (case renderNumberItem e index item l of
        None \<Rightarrow> None
      | Some l' \<Rightarrow> numberItems e (index + 1) items l')"

text \<open>The body of \<open>parsedContent.forEach(content => ...)\<close>.\<close>

definition renderBlock :: "env \<Rightarrow> ContentBlock \<Rightarrow> layout \<Rightarrow> layout option" where
  "renderBlock e content l =
     (let l1 = newPageIfNeeded e l
      in case content of
           Heading1 text \<Rightarrow> renderText e True 14 20 10 text l1
         | Heading2 text \<Rightarrow> renderText e True 12 18 8 text l1
         | Heading3 text \<Rightarrow> renderText e True 11 16 6 text l1
         | Paragraph text \<Rightarrow> renderText e False 11 14 10 text l1
         | BulletList items \<Rightarrow>
             (case bulletItems e items (l1\<lparr>doc := setFontSize 11 (setFont False (doc l1))\<rparr>) of
                None \<Rightarrow> None
              | Some l2 \<Rightarrow> Some (l2\<lparr>yPos := yPos l2 + 5\<rparr>))
         | NumberList items \<Rightarrow>
             (case numberItems e 0 items (l1\<lparr>doc := setFontSize 11 (setFont False (doc l1))\<rparr>) of
                None \<Rightarrow> None
              | Some l2 \<Rightarrow> Some (l2\<lparr>yPos := yPos l2 + 5\<rparr>)))"

fun renderBlocks :: "env \<Rightarrow> ContentBlock list \<Rightarrow> layout \<Rightarrow> layout option" where
  "renderBlocks e [] l = Some l"
| "renderBlocks e (content # parsedContent) l =
     (case renderBlock e content l of
        None \<Rightarrow> None
      | Some l' \<Rightarrow> renderBlocks e parsedContent l')"

text \<open>
  The title and the date line, which open the first page and leave the cursor at 95.
\<close>

definition titleBlock :: "env \<Rightarrow> jstring \<Rightarrow> layout" where
  "titleBlock e topic' =
     (let pdf = newPDF\<lparr>title := topic' @ js '' Notes''\<rparr>;
          yPos0 = 40;
          pdf1 = pdfText [topic' @ js '' Notes''] margin yPos0 (setFontSize 16 (setFont True pdf));
          yPos1 = yPos0 + 25;
          pdf2 = pdfText [js ''Generated on '' @ toLocaleDateString e] margin yPos1
                   (setFontSize 10 (setFont False pdf1));
          yPos2 = yPos1 + 30
      in \<lparr>doc = pdf2, yPos = yPos2\<rparr>)"

text \<open>
  The \<open>try\<close> block of \<open>generatePDF\<close>: \<open>None\<close> when a step throws, and otherwise the
  state with the object URL of the blob created and opened in a new window.
\<close>

definition generatePDF_try :: "env \<Rightarrow> app \<Rightarrow> app option" where
  "generatePDF_try e st =
     (let parsedContent = parseNotesContent (parseFromString e) (notesState st)
      in case renderBlocks e parsedContent (titleBlock e (topic st)) of
           None \<Rightarrow> None
         | Some l \<Rightarrow>
             (case pdfOutput e (doc l) of
                None \<Rightarrow> None
              | Some pdfBlob \<Rightarrow>
                  (case createObjectURL st of
                     (blobUrl, st1) \<Rightarrow> Some (st1\<lparr>windows := windows st1 @ [blobUrl]\<rparr>))))"

definition generatePDF :: "env \<Rightarrow> app \<Rightarrow> app" where
  "generatePDF e st =
     (case generatePDF_try e st of
        None \<Rightarrow> st\<lparr>error := js ''Failed to generate PDF. Please try again.''\<rparr>
      | Some st' \<Rightarrow> st')"

section \<open>Example inputs\<close>

text \<open>
  Notes with a heading, a line break between the elements, a list whose items are
  separated by white space, a comment, and a \<open>div\<close> with nested markup; and the body
  that the HTML parser builds from them.
\<close>

definition exampleHtml :: jstring where
  "exampleHtml =
     js ''<h1> Topic  </h1>'' @ [0xA] @
     js ''<ul><li>a</li> <li> b</li></ul><!--c--><div>x<b>y </b></div>''"

definition exampleBody :: node where
  "exampleBody = Element (js ''BODY'')
     [Element (js ''H1'') [Text (js '' Topic  '')],
      Text [0xA],
      Element (js ''UL'')
        [Element (js ''LI'') [Text (js ''a'')], Text (js '' ''),
         Element (js ''LI'') [Text (js '' b'')]],
      Comment (js ''c''),
      Element (js ''DIV'') [Text (js ''x''), Element (js ''B'') [Text (js ''y '')]]]"

definition exampleParser :: "jstring \<Rightarrow> node" where
  "exampleParser html = (if html = exampleHtml then exampleBody else Element (js ''BODY'') [])"

text \<open>Four files: two accepted ones, a GIF, and a PNG of 6 MB.\<close>

definition fileA :: File where
  "fileA = \<lparr>fileName = js ''a.png'', fileType = js ''image/png'', fileSize = 1000\<rparr>"

definition fileB :: File where
  "fileB = \<lparr>fileName = js ''b.jpg'', fileType = js ''image/jpeg'', fileSize = 5 * 1024 * 1024\<rparr>"

definition fileGif :: File where
  "fileGif = \<lparr>fileName = js ''c.gif'', fileType = js ''image/gif'', fileSize = 10\<rparr>"

definition fileBig :: File where
  "fileBig = \<lparr>fileName = js ''d.png'', fileType = js ''image/png'', fileSize = 6 * 1024 * 1024\<rparr>"

text \<open>
  A server that answers \<open>generate-notes\<close> with a fenced paragraph naming the file, and
  \<open>generate-notes-pdf\<close> with four bytes.
\<close>

definition exampleNotes :: "File \<Rightarrow> jstring" where
  "exampleNotes f =
     backticks @ js ''html'' @ [0xA] @ js ''<p>'' @ fileName f @ js ''</p>'' @ [0xA] @ backticks"

text \<open>A text measurement that breaks at line feeds only.\<close>

fun splitLines :: "jstring \<Rightarrow> jstring list" where
  "splitLines [] = [[]]"
| "splitLines (c # cs) =
     (if c = 0xA then [] # splitLines cs
      else case splitLines cs of
             [] \<Rightarrow> [[c]]
           | line # rest \<Rightarrow> (c # line) # rest)"

definition exampleSplit :: "jsPDF \<Rightarrow> jstring \<Rightarrow> real \<Rightarrow> jstring list option" where
  "exampleSplit pdf text w = Some (splitLines text)"

definition failingSplit :: "jsPDF \<Rightarrow> jstring \<Rightarrow> real \<Rightarrow> jstring list option" where
  "failingSplit pdf text w = None"

definition exampleOutput :: "jsPDF \<Rightarrow> blob option" where
  "exampleOutput pdf = Some [0x25, 0x50, 0x44, 0x46]"

definition examplePostNotes :: "File \<Rightarrow> jstring \<Rightarrow> jstring response" where
  "examplePostNotes f t = Resolved (exampleNotes f)"

definition examplePostPdf :: "File \<Rightarrow> jstring \<Rightarrow> blob response" where
  "examplePostPdf f t = Resolved [0x25, 0x50, 0x44, 0x46]"

text \<open>The environment of the examples: an A4 page in points.\<close>

definition exampleEnv :: env where
  "exampleEnv =
     \<lparr>parseFromString = exampleParser, splitTextToSize = exampleSplit,
      pageHeight = 841.89, pageWidth = 595.28, pdfOutput = exampleOutput,
      toLocaleDateString = js ''11/3/2026'', postGenerateNotes = examplePostNotes,
      postGenerateNotesPdf = examplePostPdf\<rparr>"

definition failingEnv :: env where
  "failingEnv = exampleEnv\<lparr>splitTextToSize := failingSplit\<rparr>"

text \<open>
  A state with two files and their previews, a topic, and notes on display.
\<close>

definition exampleApp :: app where
  "exampleApp =
     \<lparr>files = [fileA, fileB], topic = js ''WW2 History'',
      notesState = exampleHtml, loading = False, error = [], fileError = [],
      previewUrls = [0, 1], objectUrls = [0, 1], urlCounter = 2, posts = [], windows = [],
      downloads = []\<rparr>"

definition blankTopicApp :: app where
  "blankTopicApp = exampleApp\<lparr>topic := js ''   ''\<rparr>"


definition exampleItems :: "jstring list" where
  "exampleItems = [js ''a'', js ''b'', js ''c'']"




text \<open>A cursor near the top of a page.\<close>

definition exampleCursorTop :: layout where
  "exampleCursorTop = \<lparr>doc = newPDF, yPos = 100\<rparr>"

section \<open>Unfolding the definitions on concrete inputs\<close>

lemmas string_defs = trim_def isWhiteSpace_def toLowerCase_def toLowerCaseUnit_def

lemmas regex_defs = reBackslashS_def reFenceLang_def reFenceNewline_def reFence_def
  backticks_def

lemmas example_defs = exampleApp_def exampleEnv_def fileA_def fileB_def fileGif_def
  fileBig_def exampleNotes_def examplePostNotes_def examplePostPdf_def exampleOutput_def
  exampleSplit_def blankTopicApp_def failingEnv_def failingSplit_def exampleParser_def
  exampleBody_def

lemmas layout_defs = renderBlock_def renderText_def renderBulletItem_def
  renderNumberItem_def newPageIfNeeded_def titleBlock_def pdfText_def setFont_def
  setFontSize_def addPage_def newPDF_def margin_def contentWidth_def

section \<open>The parser keeps every top-level element, in order\<close>

lemma foldl_push: "foldl (\<lambda>acc e. acc @ [f e]) acc0 es = acc0 @ map f es"
  by (induction es arbitrary: acc0) simp_all

lemma parseNotesContent_map:
  "parseNotesContent parser htmlContent =
     map parseElement (children (parser htmlContent))"
  by (simp add: parseNotesContent_def foldl_push)

text \<open>
  C1. When the parsed body has N top-level child elements, \<open>parseNotesContent\<close> returns
  exactly N blocks, the i-th block made from the i-th element: \<open>h1\<close>, \<open>h2\<close>, \<open>h3\<close> and
  \<open>p\<close> give the heading or paragraph with the element's trimmed text content, \<open>ul\<close> and
  \<open>ol\<close> give the bullet or number list of the trimmed text contents of the element's
  child elements in order, and every other tag gives a paragraph with the trimmed text
  content.
\<close>

theorem parseNotesContent_blocks:
  "length (parseNotesContent parser htmlContent) =
     length (children (parser htmlContent)) \<and>
   (\<forall>i < length (children (parser htmlContent)).
      let e = children (parser htmlContent) ! i;
          t = toLowerCase (tagName e);
          b = parseNotesContent parser htmlContent ! i
      in (t = js ''h1'' \<longrightarrow> b = Heading1 (trim (textContent e))) \<and>
         (t = js ''h2'' \<longrightarrow> b = Heading2 (trim (textContent e))) \<and>
         (t = js ''h3'' \<longrightarrow> b = Heading3 (trim (textContent e))) \<and>
         (t = js ''p'' \<longrightarrow> b = Paragraph (trim (textContent e))) \<and>
         (t = js ''ul'' \<longrightarrow>
            b = BulletList (map (\<lambda>li. trim (textContent li)) (children e))) \<and>
         (t = js ''ol'' \<longrightarrow>
            b = NumberList (map (\<lambda>li. trim (textContent li)) (children e))) \<and>
         (t \<notin> {js ''h1'', js ''h2'', js ''h3'', js ''p'', js ''ul'', js ''ol''} \<longrightarrow>
            b = Paragraph (trim (textContent e))))"
  by (simp add: parseNotesContent_map parseElement_def Let_def)

theorem parseNotesContent_blocks_witness:
  "parseNotesContent exampleParser exampleHtml =
     [Heading1 (js ''Topic''), BulletList [js ''a'', js ''b''], Paragraph (js ''xy'')]"
  using parseNotesContent_blocks [of exampleParser exampleHtml]
  by (simp add: parseNotesContent_map parseElement_def exampleParser_def exampleBody_def children_def
      trim_def isWhiteSpace_def toLowerCase_def toLowerCaseUnit_def)

section \<open>The name of the downloaded file\<close>

text \<open>
  C3. The claim: the file is named by the lower-cased topic with every run of white space
  collapsed to one \<open>-\<close>, followed by \<open>-notes.pdf\<close>, so that \<open>WW2 History\<close> gives
  \<open>ww2-history-notes.pdf\<close>. The code's pattern matches a backslash followed by letters
  \<open>s\<close>, not white space: the download of the example state, whose topic is
  \<open>WW2 History\<close>, is saved as \<open>ww2 history-notes.pdf\<close>.
\<close>

theorem handleDownload_keeps_spaces:
  "downloads (handleDownload exampleEnv exampleApp) = [(js ''ww2 history-notes.pdf'', 2)]"
  by (simp add: handleDownload_def createObjectURL_def revokeObjectURL_def downloadName_def
      string_defs regex_defs example_defs)

lemma downloadName_backslash:
  "downloadName (js ''a'' @ [0x5C] @ js ''SSs b'') = js ''a- b-notes.pdf''"
  by (simp add: downloadName_def string_defs regex_defs)

section \<open>Submitting\<close>

text \<open>
  C4. When the file list is empty or the topic is empty or white space only,
  \<open>handleSubmit\<close> sets an error message (the file error for an empty file list, the
  error otherwise), posts no request, and leaves the notes as they are.
\<close>

theorem handleSubmit_blocked:
  assumes "files st = [] \<or> trim (topic st) = []"
  shows "posts (handleSubmit e st) = posts st \<and>
         notesState (handleSubmit e st) = notesState st \<and>
         loading (handleSubmit e st) = loading st \<and>
         (if files st = []
          then fileError (handleSubmit e st) = js ''Please upload at least one image file''
          else error (handleSubmit e st) = js ''Please enter a subject/topic'')"
  using assms by (auto simp add: handleSubmit_def)

theorem handleSubmit_blocked_witness:
  "trim (topic blankTopicApp) = [] \<and>
   posts (handleSubmit exampleEnv blankTopicApp) = [] \<and>
   notesState (handleSubmit exampleEnv blankTopicApp) = exampleHtml \<and>
   error (handleSubmit exampleEnv blankTopicApp) = js ''Please enter a subject/topic''"
proof -
  have blank: "trim (topic blankTopicApp) = []"
    by (simp add: blankTopicApp_def exampleApp_def string_defs)
  then have "files blankTopicApp = [] \<or> trim (topic blankTopicApp) = []" by simp
  from handleSubmit_blocked [OF this, of exampleEnv] blank show ?thesis
    by (simp add: blankTopicApp_def exampleApp_def)
qed





section \<open>A failure of the PDF generation\<close>

text \<open>
  C6. \<open>generatePDF\<close> never changes the notes, and when a step of its \<open>try\<close> block
  throws, the state is the one before with the error set to
  \<open>Failed to generate PDF. Please try again.\<close>
\<close>

theorem generatePDF_failure:
  "notesState (generatePDF e st) = notesState st \<and>
   (generatePDF_try e st = None \<longrightarrow>
      generatePDF e st = st\<lparr>error := js ''Failed to generate PDF. Please try again.''\<rparr>)"
  by (auto simp add: generatePDF_def generatePDF_try_def createObjectURL_def Let_def
      split: option.splits)

theorem generatePDF_failure_witness:
  "generatePDF_try failingEnv exampleApp = None \<and>
   generatePDF failingEnv exampleApp =
     exampleApp\<lparr>error := js ''Failed to generate PDF. Please try again.''\<rparr> \<and>
   notesState (generatePDF failingEnv exampleApp) = exampleHtml"
proof -
  have n: "generatePDF_try failingEnv exampleApp = None"
    by (simp add: generatePDF_try_def parseNotesContent_map parseElement_def children_def
        layout_defs string_defs example_defs Let_def)
  from generatePDF_failure [of failingEnv exampleApp] n show ?thesis
    by (simp add: exampleApp_def)
qed

section \<open>Selecting files\<close>

lemma validTypes_set:
  "set validTypes = {js ''image/jpeg'', js ''image/jpg'', js ''image/png''}"
  by (simp add: validTypes_def)

lemma validateFiles_fst:
  "fst (validateFiles sel v s) =
     v @ filter (\<lambda>f. fileType f \<in> set validTypes \<and> fileSize f \<le> 5 * 1024 * 1024) sel"
  by (induction sel arbitrary: v s) (simp_all add: not_less)

lemma validateFiles_snd:
  "snd (validateFiles sel v s) =
     s\<lparr>fileError :=
         (case filter (\<lambda>f. \<not> (fileType f \<in> set validTypes \<and> fileSize f \<le> 5 * 1024 * 1024))
                 (rev sel) of
            [] \<Rightarrow> fileError s
          | f # fs \<Rightarrow> if fileType f \<notin> set validTypes then typeError else sizeError)\<rparr>"
proof (induction sel arbitrary: v s)
  case Nil
  then show ?case by simp
next
  case (Cons f sel)
  then show ?case by (auto simp add: not_less not_le split: list.splits)
qed

lemma createPreviewUrls_loop_fields:
  "files (snd (createPreviewUrls_loop fs acc s)) = files s \<and>
   posts (snd (createPreviewUrls_loop fs acc s)) = posts s \<and>
   fileError (snd (createPreviewUrls_loop fs acc s)) = fileError s \<and>
   notesState (snd (createPreviewUrls_loop fs acc s)) = notesState s"
  by (induction fs arbitrary: acc s) (simp_all add: createObjectURL_def)

lemma fold_revoke_fields:
  "files (fold revokeObjectURL us s) = files s \<and>
   posts (fold revokeObjectURL us s) = posts s \<and>
   fileError (fold revokeObjectURL us s) = fileError s \<and>
   notesState (fold revokeObjectURL us s) = notesState s \<and>
   previewUrls (fold revokeObjectURL us s) = previewUrls s"
  by (induction us arbitrary: s) (simp_all add: revokeObjectURL_def)

lemma setPreviewUrls_fields:
  "files (setPreviewUrls us s) = files s \<and>
   posts (setPreviewUrls us s) = posts s \<and>
   fileError (setPreviewUrls us s) = fileError s \<and>
   notesState (setPreviewUrls us s) = notesState s"
  by (simp add: setPreviewUrls_def cleanupPreviewUrls_def fold_revoke_fields)

lemma handleFileChange_eq:
  "files (handleFileChange sel st) = files st @ fst (validateFiles sel [] (st\<lparr>fileError := []\<rparr>)) \<and>
   posts (handleFileChange sel st) = posts st \<and>
   fileError (handleFileChange sel st) = fileError (snd (validateFiles sel [] (st\<lparr>fileError := []\<rparr>)))"
proof (cases "sel = []")
  case True
  then show ?thesis by (simp add: handleFileChange_def)
next
  case False
  obtain v s2 where vs: "validateFiles sel [] (st\<lparr>fileError := []\<rparr>) = (v, s2)"
    by (cases "validateFiles sel [] (st\<lparr>fileError := []\<rparr>)")
  have s2: "s2 = snd (validateFiles sel [] (st\<lparr>fileError := []\<rparr>))" using vs by simp
  have f2: "files s2 = files st" "posts s2 = posts st"
    unfolding s2 validateFiles_snd by simp_all
  show ?thesis
  proof (cases "v = []")
    case True
    with False vs f2 show ?thesis by (simp add: handleFileChange_def)
  next
    case nonempty: False
    obtain us s4 where c: "createPreviewUrls (files st @ v) (s2\<lparr>files := files st @ v\<rparr>) = (us, s4)"
      by (cases "createPreviewUrls (files st @ v) (s2\<lparr>files := files st @ v\<rparr>)")
    have s4: "s4 = snd (createPreviewUrls_loop (files st @ v) [] (s2\<lparr>files := files st @ v\<rparr>))"
      using c by (simp add: createPreviewUrls_def)
    have "files s4 = files st @ v" "posts s4 = posts st" "fileError s4 = fileError s2"
      unfolding s4 using f2 by (simp_all add: createPreviewUrls_loop_fields)
    with False nonempty vs c show ?thesis
      by (simp add: handleFileChange_def Let_def setPreviewUrls_fields)
  qed
qed

lemma handleFileChange_fileError:
  "fileError (handleFileChange sel st) =
     (case filter (\<lambda>f. \<not> (fileType f \<in> set validTypes \<and> fileSize f \<le> 5 * 1024 * 1024))
             (rev sel) of
        [] \<Rightarrow> []
      | f # fs \<Rightarrow> if fileType f \<notin> set validTypes then typeError else sizeError)"
  by (simp add: handleFileChange_eq validateFiles_snd split: list.split)

text \<open>
  C5, as the claim states it, fails on the error: in the batch of a GIF and a PNG of 6 MB
  both files are rejected, and the state after the batch holds the size error only; the
  type error of the GIF has been overwritten.
\<close>

theorem handleFileChange_error_counterexample:
  "fileType fileGif \<notin> {js ''image/jpeg'', js ''image/jpg'', js ''image/png''} \<and>
   files (handleFileChange [fileGif, fileBig] exampleApp) = files exampleApp \<and>
   fileError (handleFileChange [fileGif, fileBig] exampleApp) =
     js ''One or more files exceed 5MB limit'' \<and>
   fileError (handleFileChange [fileGif, fileBig] exampleApp) \<noteq>
     js ''Please upload valid image files (JPG, JPEG, PNG)''"
  by (simp add: handleFileChange_def validTypes_def typeError_def sizeError_def
      fileGif_def fileBig_def exampleApp_def)

text \<open>
  C5, amended. Of a batch of selected files, \<open>handleFileChange\<close> appends exactly those
  whose type is \<open>image/jpeg\<close>, \<open>image/jpg\<close> or \<open>image/png\<close> and whose size is at most
  5 * 1024 * 1024 bytes, in their order, whatever files are rejected beside them, and
  posts no request. The batch leaves one error message: none when no file is rejected,
  and otherwise that of the last rejected file, the type error when its type is not
  accepted and the size error when its type is accepted and it is too large.
\<close>

theorem handleFileChange_valid_files:
  "files (handleFileChange selectedFiles st) =
     files st @
     filter (\<lambda>f. fileType f \<in> {js ''image/jpeg'', js ''image/jpg'', js ''image/png''} \<and>
                 fileSize f \<le> 5 * 1024 * 1024) selectedFiles \<and>
   posts (handleFileChange selectedFiles st) = posts st \<and>
   fileError (handleFileChange selectedFiles st) =
     (case filter (\<lambda>f. \<not> (fileType f \<in> {js ''image/jpeg'', js ''image/jpg'', js ''image/png''} \<and>
                           fileSize f \<le> 5 * 1024 * 1024)) (rev selectedFiles) of
        [] \<Rightarrow> []
      | f # fs \<Rightarrow>
          if fileType f \<notin> {js ''image/jpeg'', js ''image/jpg'', js ''image/png''}
          then js ''Please upload valid image files (JPG, JPEG, PNG)''
          else js ''One or more files exceed 5MB limit'')"
proof -
  have f: "files (handleFileChange selectedFiles st) =
     files st @
     filter (\<lambda>f. fileType f \<in> set validTypes \<and> fileSize f \<le> 5 * 1024 * 1024) selectedFiles"
    by (simp add: handleFileChange_eq validateFiles_fst)
  have p: "posts (handleFileChange selectedFiles st) = posts st"
    by (simp add: handleFileChange_eq)
  have e: "fileError (handleFileChange selectedFiles st) =
     (case filter (\<lambda>f. \<not> (fileType f \<in> set validTypes \<and> fileSize f \<le> 5 * 1024 * 1024))
             (rev selectedFiles) of
        [] \<Rightarrow> []
      | f # fs \<Rightarrow>
          if fileType f \<notin> set validTypes
          then js ''Please upload valid image files (JPG, JPEG, PNG)''
          else js ''One or more files exceed 5MB limit'')"
    unfolding handleFileChange_fileError typeError_def sizeError_def by (rule refl)
  show ?thesis
    unfolding validTypes_set [symmetric] by (rule conjI [OF f conjI [OF p e]])
qed

theorem handleFileChange_valid_files_witness:
  "files (handleFileChange [fileGif, fileA, fileBig, fileB] exampleApp) =
     [fileA, fileB, fileA, fileB] \<and>
   posts (handleFileChange [fileGif, fileA, fileBig, fileB] exampleApp) = [] \<and>
   fileError (handleFileChange [fileGif, fileA, fileBig, fileB] exampleApp) =
     js ''One or more files exceed 5MB limit''"
  using handleFileChange_valid_files [of "[fileGif, fileA, fileBig, fileB]" exampleApp]
  by (simp add: fileA_def fileB_def fileGif_def fileBig_def exampleApp_def)

section \<open>Cursor and list markers of the layout\<close>

lemma renderText_Some:
  "renderText e b s lh sp t l = Some l' \<longleftrightarrow>
     (\<exists>ls. splitTextToSize e (setFontSize s (setFont b (doc l))) t (contentWidth (pageWidth e)) = Some ls \<and>
           l' = \<lparr>doc = pdfText ls margin (yPos l) (setFontSize s (setFont b (doc l))),
                 yPos = yPos l + real (length ls) * lh + sp\<rparr>)"
  by (auto simp add: renderText_def Let_def split: option.splits)

lemma renderText_yPos:
  "map_option yPos (renderText e b s lh sp t l) =
     map_option (\<lambda>ls. yPos l + real (length ls) * lh + sp)
       (splitTextToSize e (setFontSize s (setFont b (doc l))) t (contentWidth (pageWidth e)))"
  by (simp add: renderText_def Let_def split: option.splits)

lemma bulletItems_chain:
  "bulletItems e items l = Some l' \<Longrightarrow>
   \<exists>cs. length cs = length items + 1 \<and> cs ! 0 = l \<and> cs ! length items = l' \<and>
        (\<forall>i < length items. renderBulletItem e (items ! i) (cs ! i) = Some (cs ! (i + 1)))"
proof (induction items arbitrary: l)
  case Nil
  then have "length [l] = length ([]::jstring list) + 1 \<and> [l] ! 0 = l \<and> [l] ! length ([]::jstring list) = l'"
    by simp
  then show ?case by (intro exI [of _ "[l]"]) simp
next
  case (Cons item items)
  from Cons.prems obtain l1 where
    step: "renderBulletItem e item l = Some l1" and rest: "bulletItems e items l1 = Some l'"
    by (auto split: option.splits)
  from Cons.IH [OF rest] obtain cs where
    cs: "length cs = length items + 1" "cs ! 0 = l1" "cs ! length items = l'"
      "\<forall>i < length items. renderBulletItem e (items ! i) (cs ! i) = Some (cs ! (i + 1))"
    by blast
  have "\<forall>i < length (item # items).
          renderBulletItem e ((item # items) ! i) ((l # cs) ! i) = Some ((l # cs) ! (i + 1))"
  proof (intro allI impI)
    fix i assume "i < length (item # items)"
    then show "renderBulletItem e ((item # items) ! i) ((l # cs) ! i) = Some ((l # cs) ! (i + 1))"
      using step cs(2,4) by (cases i) simp_all
  qed
  moreover have "length (l # cs) = length (item # items) + 1" using cs(1) by simp
  moreover have "(l # cs) ! 0 = l" by simp
  moreover have "(l # cs) ! length (item # items) = l'" using cs(3) by simp
  ultimately show ?case by blast
qed

lemma numberItems_chain:
  "numberItems e k items l = Some l' \<Longrightarrow>
   \<exists>cs. length cs = length items + 1 \<and> cs ! 0 = l \<and> cs ! length items = l' \<and>
        (\<forall>i < length items.
           renderNumberItem e (k + i) (items ! i) (cs ! i) = Some (cs ! (i + 1)))"
proof (induction items arbitrary: k l)
  case Nil
  then have "length [l] = length ([]::jstring list) + 1 \<and> [l] ! 0 = l \<and> [l] ! length ([]::jstring list) = l'"
    by simp
  then show ?case by (intro exI [of _ "[l]"]) simp
next
  case (Cons item items)
  from Cons.prems obtain l1 where
    step: "renderNumberItem e k item l = Some l1" and
    rest: "numberItems e (k + 1) items l1 = Some l'"
    by (auto split: option.splits)
  from Cons.IH [OF rest] obtain cs where
    cs: "length cs = length items + 1" "cs ! 0 = l1" "cs ! length items = l'"
      "\<forall>i < length items.
         renderNumberItem e (k + 1 + i) (items ! i) (cs ! i) = Some (cs ! (i + 1))"
    by blast
  have "\<forall>i < length (item # items).
          renderNumberItem e (k + i) ((item # items) ! i) ((l # cs) ! i) =
            Some ((l # cs) ! (i + 1))"
  proof (intro allI impI)
    fix i assume "i < length (item # items)"
    then show "renderNumberItem e (k + i) ((item # items) ! i) ((l # cs) ! i) =
            Some ((l # cs) ! (i + 1))"
      using step cs(2,4) by (cases i) simp_all
  qed
  moreover have "length (l # cs) = length (item # items) + 1" using cs(1) by simp
  moreover have "(l # cs) ! 0 = l" by simp
  moreover have "(l # cs) ! length (item # items) = l'" using cs(3) by simp
  ultimately show ?case by blast
qed

lemma renderBulletItem_advance:
  "renderBulletItem e item l = Some l' \<Longrightarrow>
   \<exists>ls. splitTextToSize e (doc (newPageIfNeeded e l)) item (contentWidth (pageWidth e) - 15) = Some ls \<and>
        yPos l' = yPos (newPageIfNeeded e l) + real (length ls) * 14 + 5"
  by (auto simp add: renderBulletItem_def Let_def split: option.splits)

lemma renderNumberItem_advance:
  "renderNumberItem e k item l = Some l' \<Longrightarrow>
   \<exists>ls. splitTextToSize e (doc (newPageIfNeeded e l)) item (contentWidth (pageWidth e) - 20) = Some ls \<and>
        yPos l' = yPos (newPageIfNeeded e l) + real (length ls) * 14 + 5"
  by (auto simp add: renderNumberItem_def Let_def split: option.splits)

lemma bulletList_advance:
  assumes "renderBlock e (BulletList items) l = Some lbul"
  shows "\<exists>cs. length cs = length items + 1 \<and>
          cs ! 0 = (newPageIfNeeded e l)\<lparr>doc := setFontSize 11 (setFont False (doc (newPageIfNeeded e l)))\<rparr> \<and>
          (\<forall>i < length items.
             renderBulletItem e (items ! i) (cs ! i) = Some (cs ! (i + 1)) \<and>
             (\<exists>ls. splitTextToSize e (doc (newPageIfNeeded e (cs ! i))) (items ! i)
                     (contentWidth (pageWidth e) - 15) = Some ls \<and>
                   yPos (cs ! (i + 1)) =
                     yPos (newPageIfNeeded e (cs ! i)) + real (length ls) * 14 + 5)) \<and>
          lbul = (cs ! length items)\<lparr>yPos := yPos (cs ! length items) + 5\<rparr>"
proof -
  let ?l1 = "(newPageIfNeeded e l)\<lparr>doc := setFontSize 11 (setFont False (doc (newPageIfNeeded e l)))\<rparr>"
  from assms obtain l2 where
    items: "bulletItems e items ?l1 = Some l2" and lbul: "lbul = l2\<lparr>yPos := yPos l2 + 5\<rparr>"
    by (auto simp add: renderBlock_def Let_def split: option.splits)
  from bulletItems_chain [OF items] obtain cs where
    cs: "length cs = length items + 1" "cs ! 0 = ?l1" "cs ! length items = l2"
      "\<forall>i < length items. renderBulletItem e (items ! i) (cs ! i) = Some (cs ! (i + 1))"
    by blast
  have "\<forall>i < length items.
             renderBulletItem e (items ! i) (cs ! i) = Some (cs ! (i + 1)) \<and>
             (\<exists>ls. splitTextToSize e (doc (newPageIfNeeded e (cs ! i))) (items ! i)
                     (contentWidth (pageWidth e) - 15) = Some ls \<and>
                   yPos (cs ! (i + 1)) =
                     yPos (newPageIfNeeded e (cs ! i)) + real (length ls) * 14 + 5)"
    using cs(4) renderBulletItem_advance by blast
  with cs(1,2,3) lbul show ?thesis by blast
qed

lemma numberList_advance:
  assumes "renderBlock e (NumberList items) l = Some lnum"
  shows "\<exists>cs. length cs = length items + 1 \<and>
          cs ! 0 = (newPageIfNeeded e l)\<lparr>doc := setFontSize 11 (setFont False (doc (newPageIfNeeded e l)))\<rparr> \<and>
          (\<forall>i < length items.
             renderNumberItem e i (items ! i) (cs ! i) = Some (cs ! (i + 1)) \<and>
             (\<exists>ls. splitTextToSize e (doc (newPageIfNeeded e (cs ! i))) (items ! i)
                     (contentWidth (pageWidth e) - 20) = Some ls \<and>
                   yPos (cs ! (i + 1)) =
                     yPos (newPageIfNeeded e (cs ! i)) + real (length ls) * 14 + 5)) \<and>
          lnum = (cs ! length items)\<lparr>yPos := yPos (cs ! length items) + 5\<rparr>"
proof -
  let ?l1 = "(newPageIfNeeded e l)\<lparr>doc := setFontSize 11 (setFont False (doc (newPageIfNeeded e l)))\<rparr>"
  from assms obtain l2 where
    items: "numberItems e 0 items ?l1 = Some l2" and lnum: "lnum = l2\<lparr>yPos := yPos l2 + 5\<rparr>"
    by (auto simp add: renderBlock_def Let_def split: option.splits)
  from numberItems_chain [OF items] obtain cs where
    cs: "length cs = length items + 1" "cs ! 0 = ?l1" "cs ! length items = l2"
      "\<forall>i < length items. renderNumberItem e (0 + i) (items ! i) (cs ! i) = Some (cs ! (i + 1))"
    by blast
  have "\<forall>i < length items.
             renderNumberItem e i (items ! i) (cs ! i) = Some (cs ! (i + 1)) \<and>
             (\<exists>ls. splitTextToSize e (doc (newPageIfNeeded e (cs ! i))) (items ! i)
                     (contentWidth (pageWidth e) - 20) = Some ls \<and>
                   yPos (cs ! (i + 1)) =
                     yPos (newPageIfNeeded e (cs ! i)) + real (length ls) * 14 + 5)"
    using cs(4) renderNumberItem_advance by fastforce
  with cs(1,2,3) lnum show ?thesis by blast
qed

text \<open>
  C8. The margin is 40 and the content width is the page width minus 2 * 40. From the
  position at which it is drawn (the cursor after the page-break check), a \<open>heading1\<close>
  block moves the cursor by 20 for each wrapped line and 10, a \<open>heading2\<close> block by 18
  and 8, a \<open>heading3\<close> block by 16 and 6, a paragraph by 14 and 10, and a list item by
  14 and 5; such a block or item fails exactly when the text measurement does. A list of K
  items passes through K + 1 cursors: the first is the cursor after the page-break check
  of the block, each item is rendered from the cursor that the item before it left and
  moves it by 14 for each of its wrapped lines and 5, and the list ends 5 below the
  cursor after its last item.
\<close>

theorem vertical_advance:
  "margin = 40 \<and> contentWidth w = w - 2 * 40 \<and>
   map_option yPos (renderBlock e (Heading1 t) l) =
     map_option (\<lambda>ls. yPos (newPageIfNeeded e l) + real (length ls) * 20 + 10)
       (splitTextToSize e (setFontSize 14 (setFont True (doc (newPageIfNeeded e l)))) t
          (contentWidth (pageWidth e))) \<and>
   map_option yPos (renderBlock e (Heading2 t) l) =
     map_option (\<lambda>ls. yPos (newPageIfNeeded e l) + real (length ls) * 18 + 8)
       (splitTextToSize e (setFontSize 12 (setFont True (doc (newPageIfNeeded e l)))) t
          (contentWidth (pageWidth e))) \<and>
   map_option yPos (renderBlock e (Heading3 t) l) =
     map_option (\<lambda>ls. yPos (newPageIfNeeded e l) + real (length ls) * 16 + 6)
       (splitTextToSize e (setFontSize 11 (setFont True (doc (newPageIfNeeded e l)))) t
          (contentWidth (pageWidth e))) \<and>
   map_option yPos (renderBlock e (Paragraph t) l) =
     map_option (\<lambda>ls. yPos (newPageIfNeeded e l) + real (length ls) * 14 + 10)
       (splitTextToSize e (setFontSize 11 (setFont False (doc (newPageIfNeeded e l)))) t
          (contentWidth (pageWidth e))) \<and>
   map_option yPos (renderBulletItem e item l) =
     map_option (\<lambda>ls. yPos (newPageIfNeeded e l) + real (length ls) * 14 + 5)
       (splitTextToSize e (doc (newPageIfNeeded e l)) item (contentWidth (pageWidth e) - 15)) \<and>
   map_option yPos (renderNumberItem e index item l) =
     map_option (\<lambda>ls. yPos (newPageIfNeeded e l) + real (length ls) * 14 + 5)
       (splitTextToSize e (doc (newPageIfNeeded e l)) item (contentWidth (pageWidth e) - 20)) \<and>
   (renderBlock e (BulletList items) l = Some lbul \<longrightarrow>
      (\<exists>cs. length cs = length items + 1 \<and>
          cs ! 0 = (newPageIfNeeded e l)
                     \<lparr>doc := setFontSize 11 (setFont False (doc (newPageIfNeeded e l)))\<rparr> \<and>
          (\<forall>i < length items.
             renderBulletItem e (items ! i) (cs ! i) = Some (cs ! (i + 1)) \<and>
             (\<exists>ls. splitTextToSize e (doc (newPageIfNeeded e (cs ! i))) (items ! i)
                     (contentWidth (pageWidth e) - 15) = Some ls \<and>
                   yPos (cs ! (i + 1)) =
                     yPos (newPageIfNeeded e (cs ! i)) + real (length ls) * 14 + 5)) \<and>
          lbul = (cs ! length items)\<lparr>yPos := yPos (cs ! length items) + 5\<rparr>)) \<and>
   (renderBlock e (NumberList items) l = Some lnum \<longrightarrow>
      (\<exists>cs. length cs = length items + 1 \<and>
          cs ! 0 = (newPageIfNeeded e l)
                     \<lparr>doc := setFontSize 11 (setFont False (doc (newPageIfNeeded e l)))\<rparr> \<and>
          (\<forall>i < length items.
             renderNumberItem e i (items ! i) (cs ! i) = Some (cs ! (i + 1)) \<and>
             (\<exists>ls. splitTextToSize e (doc (newPageIfNeeded e (cs ! i))) (items ! i)
                     (contentWidth (pageWidth e) - 20) = Some ls \<and>
                   yPos (cs ! (i + 1)) =
                     yPos (newPageIfNeeded e (cs ! i)) + real (length ls) * 14 + 5)) \<and>
          lnum = (cs ! length items)\<lparr>yPos := yPos (cs ! length items) + 5\<rparr>))"
proof -
  have 1: "margin = 40 \<and> contentWidth w = w - 2 * 40"
    by (simp add: margin_def contentWidth_def)
  have 2: "map_option yPos (renderBulletItem e item l) =
     map_option (\<lambda>ls. yPos (newPageIfNeeded e l) + real (length ls) * 14 + 5)
       (splitTextToSize e (doc (newPageIfNeeded e l)) item (contentWidth (pageWidth e) - 15))"
    by (simp add: renderBulletItem_def Let_def split: option.splits)
  have 3: "map_option yPos (renderNumberItem e index item l) =
     map_option (\<lambda>ls. yPos (newPageIfNeeded e l) + real (length ls) * 14 + 5)
       (splitTextToSize e (doc (newPageIfNeeded e l)) item (contentWidth (pageWidth e) - 20))"
    by (simp add: renderNumberItem_def Let_def split: option.splits)
  have blocks: "map_option yPos (renderBlock e (Heading1 t) l) =
     map_option (\<lambda>ls. yPos (newPageIfNeeded e l) + real (length ls) * 20 + 10)
       (splitTextToSize e (setFontSize 14 (setFont True (doc (newPageIfNeeded e l)))) t
          (contentWidth (pageWidth e))) \<and>
   map_option yPos (renderBlock e (Heading2 t) l) =
     map_option (\<lambda>ls. yPos (newPageIfNeeded e l) + real (length ls) * 18 + 8)
       (splitTextToSize e (setFontSize 12 (setFont True (doc (newPageIfNeeded e l)))) t
          (contentWidth (pageWidth e))) \<and>
   map_option yPos (renderBlock e (Heading3 t) l) =
     map_option (\<lambda>ls. yPos (newPageIfNeeded e l) + real (length ls) * 16 + 6)
       (splitTextToSize e (setFontSize 11 (setFont True (doc (newPageIfNeeded e l)))) t
          (contentWidth (pageWidth e))) \<and>
   map_option yPos (renderBlock e (Paragraph t) l) =
     map_option (\<lambda>ls. yPos (newPageIfNeeded e l) + real (length ls) * 14 + 10)
       (splitTextToSize e (setFontSize 11 (setFont False (doc (newPageIfNeeded e l)))) t
          (contentWidth (pageWidth e)))"
    by (simp add: renderBlock_def Let_def renderText_yPos)
  show ?thesis
    apply (rule conjI, rule 1 [THEN conjunct1])
    apply (rule conjI, rule 1 [THEN conjunct2])
    apply (rule conjI, rule blocks [THEN conjunct1])
    apply (rule conjI, rule blocks [THEN conjunct2, THEN conjunct1])
    apply (rule conjI, rule blocks [THEN conjunct2, THEN conjunct2, THEN conjunct1])
    apply (rule conjI, rule blocks [THEN conjunct2, THEN conjunct2, THEN conjunct2])
    apply (rule conjI, rule 2)
    apply (rule conjI, rule 3)
    apply (rule conjI, rule impI, erule bulletList_advance)
    apply (rule impI, erule numberList_advance)
    done
qed

theorem vertical_advance_witness:
  "renderBlock exampleEnv (BulletList exampleItems) exampleCursorTop \<noteq> None \<and>
   yPos (the (renderBlock exampleEnv (BulletList exampleItems) exampleCursorTop)) = 162 \<and>
   renderBlock exampleEnv (NumberList exampleItems) exampleCursorTop \<noteq> None \<and>
   yPos (the (renderBlock exampleEnv (NumberList exampleItems) exampleCursorTop)) = 162 \<and>
   map_option yPos (renderBlock exampleEnv (Heading1 (js ''Topic'')) exampleCursorTop) = Some 130"
proof -
  have bn: "renderBlock exampleEnv (BulletList exampleItems) exampleCursorTop \<noteq> None"
    by (simp add: layout_defs exampleCursorTop_def exampleItems_def exampleEnv_def exampleSplit_def)
  have nn: "renderBlock exampleEnv (NumberList exampleItems) exampleCursorTop \<noteq> None"
    by (simp add: layout_defs exampleCursorTop_def exampleItems_def exampleEnv_def exampleSplit_def)
  have b: "renderBlock exampleEnv (BulletList exampleItems) exampleCursorTop =
           Some (the (renderBlock exampleEnv (BulletList exampleItems) exampleCursorTop))"
    using bn by simp
  have n: "renderBlock exampleEnv (NumberList exampleItems) exampleCursorTop =
           Some (the (renderBlock exampleEnv (NumberList exampleItems) exampleCursorTop))"
    using nn by simp
  have ev: "yPos (the (renderBlock exampleEnv (BulletList exampleItems) exampleCursorTop)) = 162 \<and>
            yPos (the (renderBlock exampleEnv (NumberList exampleItems) exampleCursorTop)) = 162 \<and>
            map_option yPos (renderBlock exampleEnv (Heading1 (js ''Topic'')) exampleCursorTop) = Some 130"
    by (simp add: layout_defs exampleCursorTop_def exampleItems_def exampleEnv_def exampleSplit_def)
  note T = vertical_advance [where e = exampleEnv and items = exampleItems and
      l = exampleCursorTop]
  have "renderBlock exampleEnv (BulletList exampleItems) exampleCursorTop \<noteq> None \<and>
   yPos (the (renderBlock exampleEnv (BulletList exampleItems) exampleCursorTop)) = 162 \<and>
   renderBlock exampleEnv (NumberList exampleItems) exampleCursorTop \<noteq> None \<and>
   yPos (the (renderBlock exampleEnv (NumberList exampleItems) exampleCursorTop)) = 162 \<and>
   map_option yPos (renderBlock exampleEnv (Heading1 (js ''Topic'')) exampleCursorTop) = Some 130"
    using bn nn ev by simp
  with T [THEN conjunct2, THEN conjunct2, THEN conjunct2, THEN conjunct2, THEN conjunct2,
        THEN conjunct2, THEN conjunct2, THEN conjunct2, THEN conjunct1, rule_format, OF b]
    T [THEN conjunct2, THEN conjunct2, THEN conjunct2, THEN conjunct2, THEN conjunct2,
        THEN conjunct2, THEN conjunct2, THEN conjunct2, THEN conjunct2, rule_format, OF n]
  show ?thesis by blast
qed

text \<open>The digits of \<open>toString\<close> read as a decimal number give the number back.\<close>

lemma toString_decimal:
  "foldl (\<lambda>a d. 10 * a + (d - 0x30)) 0 (toString n) = n"
proof (induction n rule: toString.induct)
  case (1 n)
  show ?case
  proof (cases "n < 10")
    case True
    then show ?thesis by (subst toString.simps) simp
  next
    case False
    with 1 show ?thesis by (subst toString.simps) simp
  qed
qed





section \<open>The page-break check\<close>













section \<open>Object URLs\<close>

lemma objectUrls_fold_revoke:
  "objectUrls (fold revokeObjectURL us s) = filter (\<lambda>u. u \<notin> set us) (objectUrls s)"
proof (induction us arbitrary: s)
  case Nil
  then show ?case by simp
next
  case (Cons u us)
  then show ?case
    by (auto simp add: revokeObjectURL_def removeAll_filter_not_eq intro!: filter_cong)
qed

lemma generatePDF_url_stays:
  assumes "generatePDF_try e st = Some st'" and "urlCounter st \<notin> set (previewUrls st)"
  shows "urlCounter st \<in> set (objectUrls (unmount st'))"
  using assms
  by (auto simp add: generatePDF_try_def createObjectURL_def unmount_def cleanupPreviewUrls_def
      objectUrls_fold_revoke Let_def split: option.splits)

text \<open>
  C9. The claim: every object URL that is created is revoked in the end. In the example
  state the previews hold the URLs 0 and 1; \<open>generatePDF\<close> creates the URL 2 and opens
  it, and nothing revokes it: it is still there after the component is unmounted, while
  the URL that \<open>handleDownload\<close> creates is revoked by \<open>handleDownload\<close> itself.
\<close>

theorem generatePDF_url_not_revoked:
  "windows (generatePDF exampleEnv exampleApp) = [2] \<and>
   objectUrls (generatePDF exampleEnv exampleApp) = [0, 1, 2] \<and>
   objectUrls (unmount (generatePDF exampleEnv exampleApp)) = [2] \<and>
   objectUrls (unmount (handleDownload exampleEnv exampleApp)) = []"
  by (simp add: generatePDF_def generatePDF_try_def parseNotesContent_map parseElement_def
      children_def layout_defs string_defs example_defs Let_def createObjectURL_def
      unmount_def cleanupPreviewUrls_def revokeObjectURL_def handleDownload_def)

end
